theory Spec2Isabelle
  imports Main "HOL-Library.Word"
begin

section \<open>Go values: slices and their backing arrays\<close>

text \<open>
  A Go slice is either \<open>nil\<close> or a window (offset, length) into a backing array that lives
  on the heap; two slices alias when they name the same array. The capacity is left out:
  no function below appends. A store of element type \<open>'a\<close> is the list of the backing
  arrays allocated so far, the address of an array being its index, so an address is
  allocated exactly when it is below the length of the store.
\<close>

type_synonym addr = nat
type_synonym byte = "8 word"

datatype slice = NilSlice | Slice (base: addr) (offset: nat) (count: nat)

type_synonym 'a store = "'a list list"

text \<open>\<open>len(s)\<close>: the length of the nil slice is 0.\<close>

fun len :: "slice \<Rightarrow> nat" where
  "len NilSlice = 0"
| "len (Slice a i n) = n"

text \<open>The elements a \<open>for ... range s\<close> loop visits, in order.\<close>

fun elems :: "'a store \<Rightarrow> slice \<Rightarrow> 'a list" where
  "elems st NilSlice = []"
| "elems st (Slice a i n) = take n (drop i (st ! a))"

text \<open>What the Go runtime guarantees of every slice value: its window lies inside an
  allocated array.\<close>

fun valid_slice :: "'a store \<Rightarrow> slice \<Rightarrow> bool" where
  "valid_slice st NilSlice = True"
| "valid_slice st (Slice a i n) = (a < length st \<and> i + n \<le> length (st ! a))"

text \<open>\<open>make([]T, n)\<close>: a new array of \<open>n\<close> zero values \<open>z\<close> at the next free address.\<close>

definition make_slice :: "'a \<Rightarrow> 'a store \<Rightarrow> nat \<Rightarrow> slice \<times> 'a store" where
  "make_slice z st n = (Slice (length st) 0 n, st @ [replicate n z])"

text \<open>\<open>copy(dst, src)\<close>: the first \<open>min(len(dst), len(src))\<close> elements of \<open>src\<close> are
  written over the start of \<open>dst\<close>.\<close>

fun copy :: "'a store \<Rightarrow> slice \<Rightarrow> slice \<Rightarrow> 'a store" where
  "copy st NilSlice src = st"
| "copy st (Slice a i n) src =
     (let xs = take n (elems st src)
      in st[a := take i (st ! a) @ xs @ drop (i + length xs) (st ! a)])"

text \<open>\<open>s[k] = v\<close>: an index outside \<open>0 .. len(s) - 1\<close> panics (\<open>None\<close>).\<close>

fun assign :: "'a store \<Rightarrow> slice \<Rightarrow> nat \<Rightarrow> 'a \<Rightarrow> 'a store option" where
  "assign st NilSlice k v = None"
| "assign st (Slice a i n) k v =
     (if k < n then Some (st[a := (st ! a)[i + k := v]]) else None)"

text \<open>The heap: one store per element type that \<open>SealConfig\<close> holds slices of.\<close>

record heap =
  strings :: "string store"
  bytes :: "byte store"
  byteSlices :: "slice store"

section \<open>SealConfig\<close>

text \<open>The struct of the source, field by field. Go's \<open>int\<close> fields are only compared,
  never computed with, so they are integers here.\<close>

record SealConfig =
  Type :: string
  SecretShares :: int
  SecretThreshold :: int
  PGPKeys :: slice
  Nonce :: string
  Backup :: bool
  StoredShares :: int
  RekeyProgress :: slice
  VerificationRequired :: bool
  VerificationKey :: slice
  VerificationNonce :: string
  VerificationProgress :: slice
  Name :: string

text \<open>An error made by \<open>fmt.Errorf\<close>: \<open>Errorf msg\<close> is \<open>fmt.Errorf(msg)\<close>, and
  \<open>Errorf_w msg err\<close> is \<open>fmt.Errorf(msg + ": %w", err)\<close>, which wraps the error \<open>err\<close> of
  a library call.\<close>

datatype 'e error = Errorf string | Errorf_w string 'e

text \<open>The memory a call of a method of \<open>*SealConfig\<close> works on: the heap and the struct
  the receiver points to.\<close>

type_synonym memory = "heap \<times> SealConfig"

subsection \<open>Validate\<close>

text \<open>
  The loop over \<open>s.PGPKeys\<close>. \<open>base64.StdEncoding.DecodeString\<close> and
  \<open>openpgp.ReadEntity\<close> (applied to a packet reader over the decoded bytes) are library
  functions: they are parameters, each returning its error or its value. A Go string is
  immutable and the decoded bytes are new, so neither call can write to the memory.
\<close>

fun range_PGPKeys ::
  "(string \<Rightarrow> 'e + byte list) \<Rightarrow> (byte list \<Rightarrow> 'e + 'ent) \<Rightarrow> string list \<Rightarrow> memory
     \<Rightarrow> 'e error option \<times> memory" where
  "range_PGPKeys DecodeString ReadEntity [] m = (None, m)"
| "range_PGPKeys DecodeString ReadEntity (keystring # rest) m =
     (case DecodeString keystring of
        Inl err \<Rightarrow> (Some (Errorf_w ''error decoding given PGP key'' err), m)
      | Inr data \<Rightarrow>
          (case ReadEntity data of
             Inl err \<Rightarrow> (Some (Errorf_w ''error parsing given PGP key'' err), m)
           | Inr entity \<Rightarrow> range_PGPKeys DecodeString ReadEntity rest m))"

text \<open>\<open>func (s *SealConfig) Validate() error\<close>: the returned error (\<open>None\<close> is \<open>nil\<close>)
  and the memory after the call.\<close>

definition SealConfig_Validate ::
  "(string \<Rightarrow> 'e + byte list) \<Rightarrow> (byte list \<Rightarrow> 'e + 'ent) \<Rightarrow> memory
     \<Rightarrow> 'e error option \<times> memory" where
  "SealConfig_Validate DecodeString ReadEntity m =
     (let h = fst m; s = snd m in
      if SecretShares s < 1 then
        (Some (Errorf ''shares must be at least one''), m)
      else if SecretThreshold s < 1 then
        (Some (Errorf ''threshold must be at least one''), m)
      else if SecretShares s > 1 \<and> SecretThreshold s = 1 then
        (Some (Errorf ''threshold must be greater than one for multiple shares''), m)
      else if SecretShares s > 255 then
        (Some (Errorf ''shares must be less than 256''), m)
      else if SecretThreshold s > 255 then
        (Some (Errorf ''threshold must be less than 256''), m)
      else if SecretThreshold s > SecretShares s then
        (Some (Errorf ''threshold cannot be larger than shares''), m)
      else if StoredShares s > 1 then
        (Some (Errorf ''stored keys cannot be larger than 1''), m)
      else if len (PGPKeys s) > 0 \<and> int (len (PGPKeys s)) \<noteq> SecretShares s then
        (Some (Errorf
          ''count mismatch between number of provided PGP keys and number of shares''), m)
      else if len (PGPKeys s) > 0 then
        range_PGPKeys DecodeString ReadEntity (elems (strings h) (PGPKeys s)) m
      else (None, m))"

subsection \<open>Clone\<close>

text \<open>\<open>func (s *SealConfig) Clone() *SealConfig\<close>: the new struct and the memory after the
  call. The composite literal sets nine fields; every other field of \<open>ret\<close> has its zero
  value, which for a slice is \<open>nil\<close>.\<close>

definition Clone :: "memory \<Rightarrow> SealConfig \<times> memory" where
  "Clone m =
     (let h = fst m; s = snd m;
          ret = \<lparr>Type = Type s,
                 SecretShares = SecretShares s,
                 SecretThreshold = SecretThreshold s,
                 PGPKeys = NilSlice,
                 Nonce = Nonce s,
                 Backup = Backup s,
                 StoredShares = StoredShares s,
                 RekeyProgress = NilSlice,
                 VerificationRequired = VerificationRequired s,
                 VerificationKey = NilSlice,
                 VerificationNonce = VerificationNonce s,
                 VerificationProgress = NilSlice,
                 Name = Name s\<rparr>;
          (ret, h) =
            (if len (PGPKeys s) > 0 then
               (let (p, st) = make_slice [] (strings h) (len (PGPKeys s))
                in (ret\<lparr>PGPKeys := p\<rparr>, h\<lparr>strings := copy st p (PGPKeys s)\<rparr>))
             else (ret, h));
          (ret, h) =
            (if len (VerificationKey s) > 0 then
               (let (p, st) = make_slice 0 (bytes h) (len (VerificationKey s))
                in (ret\<lparr>VerificationKey := p\<rparr>, h\<lparr>bytes := copy st p (VerificationKey s)\<rparr>))
             else (ret, h))
      in (ret, (h, s)))"

section \<open>SealConfigType\<close>

text \<open>\<open>type SealConfigType string\<close>: a string under a type name of its own.\<close>

datatype SealConfigType = SealConfigType string

text \<open>The tags of the key-wrapping library (\<open>wrapping.WrapperTypeShamir\<close> and so on) are
  declared outside this repository: they are a parameter.\<close>

record wrapping =
  WrapperTypeShamir :: string
  WrapperTypePkcs11 :: string
  WrapperTypeAwsKms :: string
  WrapperTypeHsmAuto :: string
  WrapperTypeTransit :: string
  WrapperTypeGcpCkms :: string

definition SealConfigTypeMultiseal :: SealConfigType where
  "SealConfigTypeMultiseal = SealConfigType ''multiseal''"

definition SealConfigTypeShamir :: "wrapping \<Rightarrow> SealConfigType" where
  "SealConfigTypeShamir W = SealConfigType (WrapperTypeShamir W)"

definition SealConfigTypePkcs11 :: "wrapping \<Rightarrow> SealConfigType" where
  "SealConfigTypePkcs11 W = SealConfigType (WrapperTypePkcs11 W)"

definition SealConfigTypeAwsKms :: "wrapping \<Rightarrow> SealConfigType" where
  "SealConfigTypeAwsKms W = SealConfigType (WrapperTypeAwsKms W)"

definition SealConfigTypeHsmAutoDeprecated :: "wrapping \<Rightarrow> SealConfigType" where
  "SealConfigTypeHsmAutoDeprecated W = SealConfigType (WrapperTypeHsmAuto W)"

definition SealConfigTypeTransit :: "wrapping \<Rightarrow> SealConfigType" where
  "SealConfigTypeTransit W = SealConfigType (WrapperTypeTransit W)"

definition SealConfigTypeGcpCkms :: "wrapping \<Rightarrow> SealConfigType" where
  "SealConfigTypeGcpCkms W = SealConfigType (WrapperTypeGcpCkms W)"

definition SealConfigTypeRecovery :: "wrapping \<Rightarrow> SealConfigType" where
  "SealConfigTypeRecovery W = SealConfigTypeShamir W"

definition SealConfigTypeRecoveryUnsupported :: SealConfigType where
  "SealConfigTypeRecoveryUnsupported = SealConfigType ''unsupported''"

fun String :: "SealConfigType \<Rightarrow> string" where
  "String (SealConfigType s) = s"

definition IsSameAs :: "SealConfigType \<Rightarrow> string \<Rightarrow> bool" where
  "IsSameAs s t = (String s = t)"

section \<open>RootCredential\<close>

text \<open>
  \<open>time.Duration\<close> is a signed 64-bit count of nanoseconds and \<open>time.Second\<close> is
  \<open>1000000000\<close>; products wrap around. The \<open>int\<close> arguments are taken at 64 bits, the
  width on which a product can leave the range (at 32 bits none does). Of \<open>time.Time\<close>
  only the zero value \<open>time.Time{}\<close> occurs: a struct of a wall reading, a monotonic
  reading and a location pointer, all zero.
\<close>

type_synonym Duration = "64 word"

definition Second :: Duration where
  "Second = 1000000000"

record Time =
  wall :: "64 word"
  ext :: "64 word"
  loc :: "addr option"

definition Time_zero :: Time where
  "Time_zero = \<lparr>wall = 0, ext = 0, loc = None\<rparr>"

text \<open>\<open>RootSchedule\<close> is declared elsewhere in the package; these are the fields the
  composite literal of \<open>GetRootCredential\<close> sets. \<open>'s\<close> stands for \<open>cron.SpecSchedule\<close>;
  a pointer is an option, \<open>None\<close> being \<open>nil\<close>.\<close>

record 's RootSchedule =
  Schedule :: "'s option"
  RotationSchedule :: string
  RotationWindow :: Duration
  TTL :: Duration
  NextVaultRotation :: Time
  LastVaultRotation :: Time

record 's RotationOptions =
  Schedule :: "'s RootSchedule option"

text \<open>\<open>RootCredential\<close> embeds \<open>RotationOptions\<close>.\<close>

record 's RootCredential = "'s RotationOptions" +
  RotationID :: string
  Path :: string
  Name :: string

definition RootCredential_Validate :: "'s RootCredential \<Rightarrow> 'e option" where
  "RootCredential_Validate s = None"

text \<open>\<open>DefaultScheduler.Parse\<close> is declared elsewhere: it is the parameter \<open>Parse\<close>, returning
  its error or the schedule it built.\<close>

definition GetRootCredential ::
  "(string \<Rightarrow> 'e + 's) \<Rightarrow> string \<Rightarrow> string \<Rightarrow> string \<Rightarrow> 64 word \<Rightarrow> 64 word
     \<Rightarrow> 'e + 's RootCredential" where
  "GetRootCredential Parse rotationSchedule path credentialName rotationWindow ttl =
     (case (if rotationSchedule \<noteq> [] then
              (case Parse rotationSchedule of
                 Inl err \<Rightarrow> Inl err
               | Inr sc \<Rightarrow> Inr (Some sc))
            else Inr None) of
        Inl err \<Rightarrow> Inl err
      | Inr cronSc \<Rightarrow>
          (let rs = \<lparr>RootSchedule.Schedule = cronSc,
                     RotationSchedule = rotationSchedule,
                     RotationWindow = rotationWindow * Second,
                     TTL = ttl * Second,
                     NextVaultRotation = Time_zero,
                     LastVaultRotation = Time_zero\<rparr>
           in Inr \<lparr>RotationOptions.Schedule = Some rs,
                   RotationID = [],
                   Path = path,
                   RootCredential.Name = credentialName\<rparr>))"

section \<open>The properties of the specification\<close>

text \<open>An entry of \<open>pgpKeys\<close> is parseable when it base64-decodes and the decoded bytes
  parse as a public-key entity.\<close>

definition parseable ::
  "(string \<Rightarrow> 'e + byte list) \<Rightarrow> (byte list \<Rightarrow> 'e + 'ent) \<Rightarrow> string \<Rightarrow> bool" where
  "parseable DecodeString ReadEntity k =
     (case DecodeString k of
        Inl err \<Rightarrow> False
      | Inr data \<Rightarrow> (case ReadEntity data of Inl err \<Rightarrow> False | Inr entity \<Rightarrow> True))"

text \<open>The error taxonomy of the specification, and the class of each message that
  \<open>Validate\<close> can return; the two range messages are both \<open>RangeError\<close>, the decoding and
  the parsing message both \<open>PgpKeyParseError\<close>.\<close>

datatype ValidationError =
    ShareCountError
  | ThresholdCountError
  | ThresholdTooLowError
  | RangeError
  | ThresholdExceedsSharesError
  | StoredSharesError
  | PgpKeyCountError
  | PgpKeyParseError

fun kind :: "'e error \<Rightarrow> ValidationError option" where
  "kind (Errorf msg) =
     (if msg = ''shares must be at least one'' then Some ShareCountError
      else if msg = ''threshold must be at least one'' then Some ThresholdCountError
      else if msg = ''threshold must be greater than one for multiple shares''
        then Some ThresholdTooLowError
      else if msg = ''shares must be less than 256'' then Some RangeError
      else if msg = ''threshold must be less than 256'' then Some RangeError
      else if msg = ''threshold cannot be larger than shares''
        then Some ThresholdExceedsSharesError
      else if msg = ''stored keys cannot be larger than 1'' then Some StoredSharesError
      else if msg = ''count mismatch between number of provided PGP keys and number of shares''
        then Some PgpKeyCountError
      else None)"
| "kind (Errorf_w msg err) =
     (if msg = ''error decoding given PGP key'' then Some PgpKeyParseError
      else if msg = ''error parsing given PGP key'' then Some PgpKeyParseError
      else None)"

text \<open>A valid configuration, in the words of the specification's first testable
  property.\<close>

definition valid_per_spec ::
  "(string \<Rightarrow> 'e + byte list) \<Rightarrow> (byte list \<Rightarrow> 'e + 'ent) \<Rightarrow> memory \<Rightarrow> bool" where
  "valid_per_spec DecodeString ReadEntity m =
     (let h = fst m; s = snd m in
      1 \<le> SecretThreshold s \<and> SecretThreshold s \<le> SecretShares s \<and> SecretShares s \<le> 255 \<and>
      (SecretShares s = 1 \<or> SecretThreshold s > 1) \<and>
      (StoredShares s = 0 \<or> StoredShares s = 1) \<and>
      (len (PGPKeys s) = 0 \<or>
       int (len (PGPKeys s)) = SecretShares s \<and>
       list_all (parseable DecodeString ReadEntity) (elems (strings h) (PGPKeys s))))"

text \<open>The seven checks of section 4.1 of the specification in their order, each as the
  condition under which it is violated and the error it then gives; the seventh is the
  count check followed by the per-entry check. The first violated check decides.\<close>

definition spec_checks ::
  "(string \<Rightarrow> 'e + byte list) \<Rightarrow> (byte list \<Rightarrow> 'e + 'ent) \<Rightarrow> memory
     \<Rightarrow> (bool \<times> ValidationError) list" where
  "spec_checks DecodeString ReadEntity m =
     (let h = fst m; s = snd m in
      [(\<not> SecretShares s \<ge> 1, ShareCountError),
       (\<not> SecretThreshold s \<ge> 1, ThresholdCountError),
       (SecretShares s > 1 \<and> SecretThreshold s = 1, ThresholdTooLowError),
       (\<not> (SecretShares s \<le> 255 \<and> SecretThreshold s \<le> 255), RangeError),
       (\<not> SecretThreshold s \<le> SecretShares s, ThresholdExceedsSharesError),
       (\<not> StoredShares s \<le> 1, StoredSharesError),
       (len (PGPKeys s) > 0 \<and> int (len (PGPKeys s)) \<noteq> SecretShares s, PgpKeyCountError),
       (len (PGPKeys s) > 0 \<and>
        \<not> list_all (parseable DecodeString ReadEntity) (elems (strings h) (PGPKeys s)),
        PgpKeyParseError)])"

definition first_failure :: "(bool \<times> 'k) list \<Rightarrow> 'k option" where
  "first_failure checks = map_option snd (find fst checks)"

text \<open>The checks that come before the ones on \<open>pgpKeys\<close>.\<close>

definition passes_checks_1_to_6 :: "SealConfig \<Rightarrow> bool" where
  "passes_checks_1_to_6 s =
     (1 \<le> SecretShares s \<and> 1 \<le> SecretThreshold s \<and>
      \<not> (SecretShares s > 1 \<and> SecretThreshold s = 1) \<and>
      SecretShares s \<le> 255 \<and> SecretThreshold s \<le> 255 \<and>
      SecretThreshold s \<le> SecretShares s \<and> StoredShares s \<le> 1)"

text \<open>The error of one entry taken alone: what the loop of \<open>Validate\<close> returns on it.\<close>

definition entry_error ::
  "(string \<Rightarrow> 'e + byte list) \<Rightarrow> (byte list \<Rightarrow> 'e + 'ent) \<Rightarrow> string \<Rightarrow> 'e error option" where
  "entry_error DecodeString ReadEntity k =
     (case DecodeString k of
        Inl err \<Rightarrow> Some (Errorf_w ''error decoding given PGP key'' err)
      | Inr data \<Rightarrow>
          (case ReadEntity data of
             Inl err \<Rightarrow> Some (Errorf_w ''error parsing given PGP key'' err)
           | Inr entity \<Rightarrow> None))"

text \<open>The index of the first entry that is not parseable (the length, if all are).\<close>

fun first_offending ::
  "(string \<Rightarrow> 'e + byte list) \<Rightarrow> (byte list \<Rightarrow> 'e + 'ent) \<Rightarrow> string list \<Rightarrow> nat" where
  "first_offending DecodeString ReadEntity [] = 0"
| "first_offending DecodeString ReadEntity (k # ks) =
     (if parseable DecodeString ReadEntity k
      then Suc (first_offending DecodeString ReadEntity ks) else 0)"

text \<open>The deep contents of a progress list (\<open>[][]byte\<close>), and deep equality of two
  configurations, each read in its own heap.\<close>

definition progress :: "heap \<Rightarrow> slice \<Rightarrow> byte list list" where
  "progress h p = map (elems (bytes h)) (elems (byteSlices h) p)"

definition scalars_equal :: "SealConfig \<Rightarrow> SealConfig \<Rightarrow> bool" where
  "scalars_equal c s =
     (Type c = Type s \<and> SecretShares c = SecretShares s \<and>
      SecretThreshold c = SecretThreshold s \<and> Nonce c = Nonce s \<and> Backup c = Backup s \<and>
      StoredShares c = StoredShares s \<and>
      VerificationRequired c = VerificationRequired s \<and>
      VerificationNonce c = VerificationNonce s \<and> SealConfig.Name c = SealConfig.Name s)"

definition DeepEqual :: "heap \<Rightarrow> SealConfig \<Rightarrow> heap \<Rightarrow> SealConfig \<Rightarrow> bool" where
  "DeepEqual hc c hs s =
     (scalars_equal c s \<and>
      elems (strings hc) (PGPKeys c) = elems (strings hs) (PGPKeys s) \<and>
      elems (bytes hc) (VerificationKey c) = elems (bytes hs) (VerificationKey s) \<and>
      progress hc (RekeyProgress c) = progress hs (RekeyProgress s) \<and>
      progress hc (VerificationProgress c) = progress hs (VerificationProgress s))"

text \<open>The slices of the two fields that \<open>Clone\<close> reads are slices of the heap.\<close>

definition valid_memory :: "memory \<Rightarrow> bool" where
  "valid_memory m =
     (valid_slice (strings (fst m)) (PGPKeys (snd m)) \<and>
      valid_slice (bytes (fst m)) (VerificationKey (snd m)))"

text \<open>The numbers of seconds whose count of nanoseconds fits a \<open>Duration\<close>.\<close>

definition seconds_in_range :: "64 word \<Rightarrow> bool" where
  "seconds_in_range n = (- 9223372036 \<le> sint n \<and> sint n \<le> 9223372036)"

section \<open>Sample inputs\<close>

text \<open>A decoder and a parser to evaluate the functions with. They stand in for the
  library's functions and do not compute what those compute: a key holding \<open>!\<close> does not
  decode, and the empty byte sequence does not parse. No statement below depends on which
  keys they accept.\<close>

definition sample_DecodeString :: "string \<Rightarrow> string + byte list" where
  "sample_DecodeString k =
     (if CHR ''!'' \<in> set k then Inl ''illegal base64 data'' else Inr (replicate (length k) 0))"

definition sample_ReadEntity :: "byte list \<Rightarrow> string + nat" where
  "sample_ReadEntity d = (if d = [] then Inl ''no entity found'' else Inr (length d))"

definition sample_heap :: heap where
  "sample_heap =
     \<lparr>strings = [[''k1'', ''k2'', ''k3''], [''k1'', ''k2'']],
      bytes = [[1, 2, 3], [7, 7]],
      byteSlices = [[Slice 0 0 3]]\<rparr>"

definition sample_config :: SealConfig where
  "sample_config =
     \<lparr>Type = ''shamir'', SecretShares = 3, SecretThreshold = 2, PGPKeys = Slice 0 0 3,
      Nonce = ''n-1'', Backup = True, StoredShares = 1, RekeyProgress = Slice 0 0 1,
      VerificationRequired = True, VerificationKey = Slice 1 0 2,
      VerificationNonce = ''n-2'', VerificationProgress = NilSlice, Name = ''seal''\<rparr>"

text \<open>A configuration of one share whose only key is \<open>b\<close>, and a configuration of two
  shares whose keys are \<open>g\<close> and \<open>b\<close> in this order, each with the heap that holds its
  keys.\<close>

definition one_key_memory :: "string \<Rightarrow> memory" where
  "one_key_memory b =
     (\<lparr>strings = [[b]], bytes = [], byteSlices = []\<rparr>,
      \<lparr>Type = ''shamir'', SecretShares = 1, SecretThreshold = 1, PGPKeys = Slice 0 0 1,
       Nonce = [], Backup = False, StoredShares = 0, RekeyProgress = NilSlice,
       VerificationRequired = False, VerificationKey = NilSlice,
       VerificationNonce = [], VerificationProgress = NilSlice, Name = []\<rparr>)"

definition two_key_memory :: "string \<Rightarrow> string \<Rightarrow> memory" where
  "two_key_memory g b =
     (\<lparr>strings = [[g, b]], bytes = [], byteSlices = []\<rparr>,
      \<lparr>Type = ''shamir'', SecretShares = 2, SecretThreshold = 2, PGPKeys = Slice 0 0 2,
       Nonce = [], Backup = False, StoredShares = 0, RekeyProgress = NilSlice,
       VerificationRequired = False, VerificationKey = NilSlice,
       VerificationNonce = [], VerificationProgress = NilSlice, Name = []\<rparr>)"

text \<open>A configuration that passes every check but has a negative \<open>StoredShares\<close>.\<close>

definition negative_stored_config :: SealConfig where
  "negative_stored_config =
     \<lparr>Type = ''shamir'', SecretShares = 3, SecretThreshold = 2, PGPKeys = NilSlice,
      Nonce = [], Backup = False, StoredShares = - 1, RekeyProgress = NilSlice,
      VerificationRequired = False, VerificationKey = NilSlice,
      VerificationNonce = [], VerificationProgress = NilSlice, Name = []\<rparr>"

text \<open>The wrapper tags as the key-wrapping library (version 2) declares them.\<close>

definition go_kms_wrapping :: wrapping where
  "go_kms_wrapping =
     \<lparr>WrapperTypeShamir = ''shamir'', WrapperTypePkcs11 = ''pkcs11'',
      WrapperTypeAwsKms = ''awskms'', WrapperTypeHsmAuto = ''hsm-auto'',
      WrapperTypeTransit = ''transit'', WrapperTypeGcpCkms = ''gcpckms''\<rparr>"

definition sample_Parse :: "string \<Rightarrow> string + nat" where
  "sample_Parse spec = (if length spec < 9 then Inl ''expected 5 fields'' else Inr (length spec))"

section \<open>Lemmas\<close>

subsection \<open>The loop of Validate\<close>

lemma range_PGPKeys_memory: "snd (range_PGPKeys D R ks m) = m"
  by (induction ks) (auto split: sum.splits)

lemma range_PGPKeys_result: "fst (range_PGPKeys D R ks m) = fst (range_PGPKeys D R ks m')"
  by (induction ks) (auto split: sum.splits)

lemma range_PGPKeys_ok_iff:
  "fst (range_PGPKeys D R ks m) = None \<longleftrightarrow> list_all (parseable D R) ks"
  by (induction ks) (auto simp: parseable_def split: sum.splits)

lemma range_PGPKeys_kind:
  "fst (range_PGPKeys D R ks m) = Some e \<Longrightarrow> kind e = Some PgpKeyParseError"
  by (induction ks) (auto split: sum.splits)

lemma range_PGPKeys_first_offending:
  "\<not> list_all (parseable D R) ks \<Longrightarrow>
     first_offending D R ks < length ks \<and>
     fst (range_PGPKeys D R ks m) = entry_error D R (ks ! first_offending D R ks)"
  by (induction ks) (auto simp: parseable_def entry_error_def split: sum.splits)

lemma first_offending_prefix:
  "j < first_offending D R ks \<Longrightarrow> parseable D R (ks ! j)"
  by (induction ks arbitrary: j) (auto simp: nth_Cons' split: if_splits)

subsection \<open>Validate\<close>

lemma Validate_keys:
  "passes_checks_1_to_6 (snd m) \<Longrightarrow>
   fst (SealConfig_Validate D R m) =
     (if len (PGPKeys (snd m)) > 0 \<and> int (len (PGPKeys (snd m))) \<noteq> SecretShares (snd m)
      then Some (Errorf
        ''count mismatch between number of provided PGP keys and number of shares'')
      else if len (PGPKeys (snd m)) > 0
      then fst (range_PGPKeys D R (elems (strings (fst m)) (PGPKeys (snd m))) m)
      else None)"
  by (auto simp: SealConfig_Validate_def passes_checks_1_to_6_def Let_def)

text \<open>What \<open>Validate\<close> accepts: the bound on \<open>StoredShares\<close> is from above only.\<close>

lemma Validate_ok_iff:
  "fst (SealConfig_Validate D R m) = None \<longleftrightarrow>
     passes_checks_1_to_6 (snd m) \<and>
     (len (PGPKeys (snd m)) = 0 \<or>
      int (len (PGPKeys (snd m))) = SecretShares (snd m) \<and>
      list_all (parseable D R) (elems (strings (fst m)) (PGPKeys (snd m))))"
  by (auto simp: SealConfig_Validate_def passes_checks_1_to_6_def Let_def range_PGPKeys_ok_iff)

text \<open>Every configuration that is valid in the words of the specification is accepted;
  the converse is what fails.\<close>

lemma valid_per_spec_accepted:
  "valid_per_spec D R m \<Longrightarrow> fst (SealConfig_Validate D R m) = None"
  by (auto simp: Validate_ok_iff valid_per_spec_def passes_checks_1_to_6_def Let_def)

subsection \<open>Slices and stores\<close>

lemma elems_old: "valid_slice st sl \<Longrightarrow> elems (st @ st2) sl = elems st sl"
  by (cases sl) (auto simp: nth_append)

lemma length_elems: "valid_slice st sl \<Longrightarrow> length (elems st sl) = len sl"
  by (cases sl) auto

lemma elems_len_0: "len sl = 0 \<Longrightarrow> elems st sl = []"
  by (cases sl) auto

lemma fst_make: "fst (make_slice z st n) = Slice (length st) 0 n"
  by (simp add: make_slice_def)

text \<open>\<open>make\<close> followed by \<open>copy\<close> appends a copy of the source's elements to the store.\<close>

lemma make_copy:
  assumes "valid_slice st src"
  shows "copy (snd (make_slice z st (len src))) (Slice (length st) 0 (len src)) src =
           st @ [elems st src]"
  using assms length_elems [OF assms] elems_old [OF assms, of "[replicate (len src) z]"]
  by (simp add: make_slice_def Let_def)

lemma assign_NilSlice: "assign st NilSlice k v = Some st' \<longleftrightarrow> False"
  by simp

text \<open>A write through a slice of the newest array is not seen through a slice of an older
  one, and a write through a slice of an older array is not seen through the newest.\<close>

lemma assign_new_array:
  assumes "valid_slice st sl" and "assign (st @ [xs]) (Slice (length st) 0 n) k v = Some st'"
  shows "elems st' sl = elems st sl"
  using assms by (cases sl) (auto simp: nth_append nth_list_update split: if_splits)

lemma assign_old_array:
  assumes "valid_slice st sl" and "assign (st @ [xs]) sl k v = Some st'"
  shows "elems st' (Slice (length st) 0 n) = elems (st @ [xs]) (Slice (length st) 0 n)"
  using assms by (cases sl) (auto simp: nth_append nth_list_update split: if_splits)

subsection \<open>Clone\<close>

lemma Clone_eq:
  assumes "valid_memory m"
  shows "Clone m =
    (\<lparr>Type = Type (snd m),
      SecretShares = SecretShares (snd m),
      SecretThreshold = SecretThreshold (snd m),
      PGPKeys = (if len (PGPKeys (snd m)) > 0
                 then Slice (length (strings (fst m))) 0 (len (PGPKeys (snd m)))
                 else NilSlice),
      Nonce = Nonce (snd m),
      Backup = Backup (snd m),
      StoredShares = StoredShares (snd m),
      RekeyProgress = NilSlice,
      VerificationRequired = VerificationRequired (snd m),
      VerificationKey = (if len (VerificationKey (snd m)) > 0
                 then Slice (length (bytes (fst m))) 0 (len (VerificationKey (snd m)))
                 else NilSlice),
      VerificationNonce = VerificationNonce (snd m),
      VerificationProgress = NilSlice,
      Name = SealConfig.Name (snd m)\<rparr>,
     ((fst m)\<lparr>strings := (if len (PGPKeys (snd m)) > 0
                 then strings (fst m) @ [elems (strings (fst m)) (PGPKeys (snd m))]
                 else strings (fst m)),
              bytes := (if len (VerificationKey (snd m)) > 0
                 then bytes (fst m) @ [elems (bytes (fst m)) (VerificationKey (snd m))]
                 else bytes (fst m))\<rparr>,
      snd m))"
proof -
  have k: "valid_slice (strings (fst m)) (PGPKeys (snd m))"
    and v: "valid_slice (bytes (fst m)) (VerificationKey (snd m))"
    using assms by (simp_all add: valid_memory_def)
  show ?thesis
    by (simp add: Clone_def Let_def split_beta make_copy [OF k] make_copy [OF v] fst_make
        del: copy.simps)
qed

lemma sample_valid: "valid_memory (sample_heap, sample_config)"
  by (simp add: valid_memory_def sample_heap_def sample_config_def)

subsection \<open>SealConfigType and Duration\<close>

lemma SealConfigType_not_closed: "\<exists>t :: SealConfigType. t \<notin> set ts"
proof -
  have "inj SealConfigType"
    by (simp add: inj_def)
  then have "infinite (range SealConfigType)"
    using infinite_UNIV_listI [where ?'a = char] by (simp add: finite_image_iff)
  then have "infinite (UNIV :: SealConfigType set)"
    using finite_subset [OF subset_UNIV] by blast
  then show ?thesis
    using ex_new_if_finite [of "set ts"] by simp
qed

lemma sint_seconds:
  assumes "- 9223372036 \<le> sint (n :: 64 word)" and "sint n \<le> 9223372036"
  shows "sint (n * Second) = sint n * 1000000000"
proof -
  have s: "sint Second = 1000000000"
    by (simp add: Second_def)
  have lo: "- (2 ^ 63) \<le> sint n * 1000000000"
    using assms(1) by simp
  have hi: "sint n * 1000000000 < 2 ^ 63"
    using assms(2) by simp
  have "sint (n * Second) = signed_take_bit 63 (sint n * sint Second)"
    by (simp add: sint_word_ariths)
  also have "\<dots> = sint n * 1000000000"
    using lo hi by (simp add: s signed_take_bit_int_eq_self)
  finally show ?thesis .
qed

section \<open>The claims\<close>

subsection \<open>Validate\<close>

text \<open>
  Claim C1: \<open>Validate\<close> succeeds if and only if the configuration is valid in the words of
  the specification, which ask for \<open>StoredShares\<close> to be 0 or 1. The field's comment says
  the same (``Always 0 or 1''), but the check is \<open>StoredShares > 1\<close> alone: a configuration
  with three shares, threshold two, no keys and \<open>StoredShares = -1\<close> is accepted, with any
  decoder, parser and heap, although it is not valid.
\<close>

theorem Validate_accepts_negative_StoredShares:
  "fst (SealConfig_Validate D R (h, negative_stored_config)) = None \<and>
   \<not> valid_per_spec D R (h, negative_stored_config)"
  by (simp add: SealConfig_Validate_def valid_per_spec_def negative_stored_config_def)

text \<open>
  Claim C2: \<open>Validate\<close> enforces that \<open>StoredShares\<close> is 0 or 1, rejecting every other
  value, negative ones included. On the code a negative \<open>StoredShares\<close> is never rejected:
  \<open>Validate\<close> returns exactly what it returns for the same configuration with
  \<open>StoredShares = 0\<close>.
\<close>

theorem Validate_negative_StoredShares_as_zero:
  "StoredShares (snd m) < 0 \<Longrightarrow>
     fst (SealConfig_Validate D R m) =
     fst (SealConfig_Validate D R (fst m, (snd m)\<lparr>StoredShares := 0\<rparr>))"
  using range_PGPKeys_result [of D R "elems (strings (fst m)) (PGPKeys (snd m))" m
      "(fst m, (snd m)\<lparr>StoredShares := 0\<rparr>)"]
  by (simp add: SealConfig_Validate_def Let_def)

theorem Validate_negative_StoredShares_as_zero_witness:
  "StoredShares (snd (sample_heap, negative_stored_config)) < 0 \<and>
   fst (SealConfig_Validate sample_DecodeString sample_ReadEntity
          (sample_heap, negative_stored_config)) = None"
  using Validate_negative_StoredShares_as_zero
    [of "(sample_heap, negative_stored_config)" sample_DecodeString sample_ReadEntity]
  by (simp add: SealConfig_Validate_def negative_stored_config_def)

text \<open>
  Claim C5: \<open>Validate\<close> performs the seven checks of the specification in their order and
  the first violated check decides the error: the class of the returned error is the
  error of the first violated check, and \<open>Validate\<close> succeeds exactly when no check is
  violated.
\<close>

theorem Validate_first_failure_wins:
  "map_option kind (fst (SealConfig_Validate D R m)) =
     map_option Some (first_failure (spec_checks D R m))"
proof (cases "passes_checks_1_to_6 (snd m)")
  case False
  then show ?thesis
    by (auto simp: SealConfig_Validate_def passes_checks_1_to_6_def spec_checks_def
        first_failure_def Let_def)
next
  case True
  show ?thesis
  proof (cases "fst (range_PGPKeys D R (elems (strings (fst m)) (PGPKeys (snd m))) m)")
    case None
    with True show ?thesis
      using range_PGPKeys_ok_iff [of D R "elems (strings (fst m)) (PGPKeys (snd m))" m]
      by (simp add: Validate_keys)
         (auto simp: passes_checks_1_to_6_def spec_checks_def first_failure_def Let_def)
  next
    case (Some e)
    with True show ?thesis
      using range_PGPKeys_ok_iff [of D R "elems (strings (fst m)) (PGPKeys (snd m))" m]
        range_PGPKeys_kind [OF Some]
      by (simp add: Validate_keys)
         (auto simp: passes_checks_1_to_6_def spec_checks_def first_failure_def Let_def)
  qed
qed

text \<open>A configuration that violates checks 1, 4, 5, 6 and 7 gets the error of check 1.\<close>

theorem Validate_first_failure_wins_witness:
  "map_option kind (fst (SealConfig_Validate sample_DecodeString sample_ReadEntity
      (sample_heap,
       sample_config\<lparr>SecretShares := 0, SecretThreshold := 300, StoredShares := 2\<rparr>)))
   = Some (Some ShareCountError)"
  using Validate_first_failure_wins [of sample_DecodeString sample_ReadEntity
      "(sample_heap,
        sample_config\<lparr>SecretShares := 0, SecretThreshold := 300, StoredShares := 2\<rparr>)"]
  by (simp add: spec_checks_def first_failure_def sample_config_def)

text \<open>
  Claim C6, as amended: for a configuration that passes the checks on shares, threshold
  and stored shares and has a non-empty \<open>pgpKeys\<close>, a length other than \<open>secretShares\<close>
  gives the count-mismatch error (\<open>PgpKeyCountError\<close>); when the lengths match and some
  entry does not decode or parse, \<open>Validate\<close> fails with the error of the first such
  entry, a \<open>PgpKeyParseError\<close> that wraps the library's error for that entry. The error
  does not name the index of the entry.
\<close>

theorem Validate_PGPKeys:
  assumes "passes_checks_1_to_6 (snd m)" and "len (PGPKeys (snd m)) > 0"
  shows "(int (len (PGPKeys (snd m))) \<noteq> SecretShares (snd m) \<longrightarrow>
            fst (SealConfig_Validate D R m) = Some (Errorf
              ''count mismatch between number of provided PGP keys and number of shares'')) \<and>
         (int (len (PGPKeys (snd m))) = SecretShares (snd m) \<and>
          \<not> list_all (parseable D R) (elems (strings (fst m)) (PGPKeys (snd m))) \<longrightarrow>
            first_offending D R (elems (strings (fst m)) (PGPKeys (snd m)))
              < length (elems (strings (fst m)) (PGPKeys (snd m))) \<and>
            (\<forall>j < first_offending D R (elems (strings (fst m)) (PGPKeys (snd m))).
               parseable D R (elems (strings (fst m)) (PGPKeys (snd m)) ! j)) \<and>
            fst (SealConfig_Validate D R m) =
              entry_error D R (elems (strings (fst m)) (PGPKeys (snd m)) !
                 first_offending D R (elems (strings (fst m)) (PGPKeys (snd m)))) \<and>
            (\<exists>e. fst (SealConfig_Validate D R m) = Some e \<and> kind e = Some PgpKeyParseError))"
proof -
  let ?ks = "elems (strings (fst m)) (PGPKeys (snd m))"
  have count: "int (len (PGPKeys (snd m))) \<noteq> SecretShares (snd m) \<Longrightarrow>
      fst (SealConfig_Validate D R m) = Some (Errorf
        ''count mismatch between number of provided PGP keys and number of shares'')"
    using assms by (simp add: Validate_keys)
  have loop: "int (len (PGPKeys (snd m))) = SecretShares (snd m) \<Longrightarrow>
      fst (SealConfig_Validate D R m) = fst (range_PGPKeys D R ?ks m)"
    using assms by (simp add: Validate_keys)
  have some: "\<not> list_all (parseable D R) ?ks \<Longrightarrow>
      \<exists>e. fst (range_PGPKeys D R ?ks m) = Some e \<and> kind e = Some PgpKeyParseError"
    using range_PGPKeys_ok_iff [of D R ?ks m] range_PGPKeys_kind [of D R ?ks m]
    by (cases "fst (range_PGPKeys D R ?ks m)") auto
  show ?thesis
    using count loop some range_PGPKeys_first_offending [of D R ?ks m]
      first_offending_prefix [of _ D R ?ks]
    by auto
qed

text \<open>Three shares and the two keys \<open>k1\<close>, \<open>k2\<close>.\<close>

theorem Validate_PGPKeys_witness:
  "passes_checks_1_to_6 (snd (sample_heap, sample_config\<lparr>PGPKeys := Slice 1 0 2\<rparr>)) \<and>
   len (PGPKeys (snd (sample_heap, sample_config\<lparr>PGPKeys := Slice 1 0 2\<rparr>))) > 0 \<and>
   SecretShares (sample_config\<lparr>PGPKeys := Slice 1 0 2\<rparr>) = 3 \<and>
   elems (strings sample_heap) (PGPKeys (sample_config\<lparr>PGPKeys := Slice 1 0 2\<rparr>)) =
     [''k1'', ''k2''] \<and>
   fst (SealConfig_Validate sample_DecodeString sample_ReadEntity
     (sample_heap, sample_config\<lparr>PGPKeys := Slice 1 0 2\<rparr>)) = Some (Errorf
        ''count mismatch between number of provided PGP keys and number of shares'')"
  using Validate_PGPKeys [of "(sample_heap, sample_config\<lparr>PGPKeys := Slice 1 0 2\<rparr>)"
      sample_DecodeString sample_ReadEntity]
  by (simp add: passes_checks_1_to_6_def sample_config_def sample_heap_def)

text \<open>With any decoder and parser, and any keys \<open>g\<close> and \<open>b\<close>: the configuration of one
  share with the key \<open>b\<close> fails, if it does, with the error of \<open>b\<close>, then at index 0; and
  when \<open>g\<close> decodes and parses, the configuration of two shares with the keys \<open>g\<close>, \<open>b\<close>
  returns the very same, an error then at index 1. So one error value stands for a bad
  key at index 0 and at index 1, with every library that accepts some key and rejects
  another.\<close>

theorem PgpKeyParseError_index_counterexample:
  "\<forall>(D :: string \<Rightarrow> 'e + byte list) (R :: byte list \<Rightarrow> 'e + 'ent) g b.
     elems (strings (fst (one_key_memory b))) (PGPKeys (snd (one_key_memory b))) = [b] \<and>
     elems (strings (fst (two_key_memory g b))) (PGPKeys (snd (two_key_memory g b))) = [g, b] \<and>
     first_offending D R [b] = (if parseable D R b then 1 else 0) \<and>
     first_offending D R [g, b] =
       (if parseable D R g then (if parseable D R b then 2 else 1) else 0) \<and>
     fst (SealConfig_Validate D R (one_key_memory b)) = entry_error D R b \<and>
     fst (SealConfig_Validate D R (two_key_memory g b)) =
       (if parseable D R g then fst (SealConfig_Validate D R (one_key_memory b))
        else entry_error D R g)"
  by (auto simp: SealConfig_Validate_def one_key_memory_def two_key_memory_def
      parseable_def entry_error_def split: sum.splits)

text \<open>
  Claim C7: \<open>Validate\<close> is pure. Whatever it returns, success or any error, the memory
  after the call (every field of the configuration and every backing array) is the
  memory before it.
\<close>

theorem Validate_pure: "snd (SealConfig_Validate D R m) = m"
  by (simp add: SealConfig_Validate_def Let_def range_PGPKeys_memory)

subsection \<open>Clone\<close>

text \<open>
  Claim C8: the clone returned by \<open>Clone\<close> has nil, hence empty, \<open>RekeyProgress\<close> and
  \<open>VerificationProgress\<close> whatever shares the configuration has accumulated, while
  every scalar field and the contents of \<open>PGPKeys\<close> and \<open>VerificationKey\<close> are those of
  the configuration.
\<close>

theorem Clone_drops_progress:
  assumes "valid_memory m"
  shows "RekeyProgress (fst (Clone m)) = NilSlice \<and>
         VerificationProgress (fst (Clone m)) = NilSlice \<and>
         progress (fst (snd (Clone m))) (RekeyProgress (fst (Clone m))) = [] \<and>
         progress (fst (snd (Clone m))) (VerificationProgress (fst (Clone m))) = [] \<and>
         scalars_equal (fst (Clone m)) (snd m) \<and>
         elems (strings (fst (snd (Clone m)))) (PGPKeys (fst (Clone m))) =
           elems (strings (fst m)) (PGPKeys (snd m)) \<and>
         elems (bytes (fst (snd (Clone m)))) (VerificationKey (fst (Clone m))) =
           elems (bytes (fst m)) (VerificationKey (snd m))"
proof -
  have k: "valid_slice (strings (fst m)) (PGPKeys (snd m))"
    and v: "valid_slice (bytes (fst m)) (VerificationKey (snd m))"
    using assms by (simp_all add: valid_memory_def)
  show ?thesis
    using length_elems [OF k] length_elems [OF v]
    by (simp add: Clone_eq [OF assms] progress_def scalars_equal_def elems_len_0)
qed

text \<open>The sample configuration holds one submitted share; its clone holds none.\<close>

theorem Clone_drops_progress_witness:
  "valid_memory (sample_heap, sample_config) \<and>
   progress sample_heap (RekeyProgress sample_config) = [[1, 2, 3]] \<and>
   RekeyProgress (fst (Clone (sample_heap, sample_config))) = NilSlice \<and>
   progress (fst (snd (Clone (sample_heap, sample_config))))
     (RekeyProgress (fst (Clone (sample_heap, sample_config)))) = []"
  using Clone_drops_progress [OF sample_valid] sample_valid
  by (simp add: progress_def sample_heap_def sample_config_def)

text \<open>
  Claim C3, as amended: the clone equals the configuration on every scalar field and on
  the contents of \<open>PGPKeys\<close> and \<open>VerificationKey\<close>; the two progress lists are not
  copied: \<open>RekeyProgress\<close> and \<open>VerificationProgress\<close> are nil in the clone, hence empty,
  and the arrays of the progress lists are as they were. \<open>Clone\<close> writes to no array that existed before the call and leaves the
  receiver as it was; the clone's \<open>PGPKeys\<close> and \<open>VerificationKey\<close> are in new arrays, so
  an assignment through either is seen through no slice that existed before the call,
  and an assignment through any slice that existed before the call, the configuration's
  own among them, is not seen through the clone's.
\<close>

theorem Clone_independent_copy:
  assumes "valid_memory m"
  shows "snd (snd (Clone m)) = snd m \<and>
     scalars_equal (fst (Clone m)) (snd m) \<and>
     RekeyProgress (fst (Clone m)) = NilSlice \<and>
     VerificationProgress (fst (Clone m)) = NilSlice \<and>
     progress (fst (snd (Clone m))) (RekeyProgress (fst (Clone m))) = [] \<and>
     progress (fst (snd (Clone m))) (VerificationProgress (fst (Clone m))) = [] \<and>
     byteSlices (fst (snd (Clone m))) = byteSlices (fst m) \<and>
     elems (strings (fst (snd (Clone m)))) (PGPKeys (fst (Clone m))) =
       elems (strings (fst m)) (PGPKeys (snd m)) \<and>
     elems (bytes (fst (snd (Clone m)))) (VerificationKey (fst (Clone m))) =
       elems (bytes (fst m)) (VerificationKey (snd m)) \<and>
     (\<forall>sl. valid_slice (strings (fst m)) sl \<longrightarrow>
        elems (strings (fst (snd (Clone m)))) sl = elems (strings (fst m)) sl) \<and>
     (\<forall>sl. valid_slice (bytes (fst m)) sl \<longrightarrow>
        elems (bytes (fst (snd (Clone m)))) sl = elems (bytes (fst m)) sl) \<and>
     (\<forall>sl k v st. valid_slice (strings (fst m)) sl \<and>
        assign (strings (fst (snd (Clone m)))) (PGPKeys (fst (Clone m))) k v = Some st \<longrightarrow>
        elems st sl = elems (strings (fst m)) sl) \<and>
     (\<forall>sl k v st. valid_slice (bytes (fst m)) sl \<and>
        assign (bytes (fst (snd (Clone m)))) (VerificationKey (fst (Clone m))) k v = Some st \<longrightarrow>
        elems st sl = elems (bytes (fst m)) sl) \<and>
     (\<forall>sl k v st. valid_slice (strings (fst m)) sl \<and>
        assign (strings (fst (snd (Clone m)))) sl k v = Some st \<longrightarrow>
        elems st (PGPKeys (fst (Clone m))) =
          elems (strings (fst (snd (Clone m)))) (PGPKeys (fst (Clone m)))) \<and>
     (\<forall>sl k v st. valid_slice (bytes (fst m)) sl \<and>
        assign (bytes (fst (snd (Clone m)))) sl k v = Some st \<longrightarrow>
        elems st (VerificationKey (fst (Clone m))) =
          elems (bytes (fst (snd (Clone m)))) (VerificationKey (fst (Clone m))))"
proof -
  have k: "valid_slice (strings (fst m)) (PGPKeys (snd m))"
    and v: "valid_slice (bytes (fst m)) (VerificationKey (snd m))"
    using assms by (simp_all add: valid_memory_def)
  have 1: "snd (snd (Clone m)) = snd m"
    by (simp add: Clone_eq [OF assms])
  have 2: "scalars_equal (fst (Clone m)) (snd m)"
    by (simp add: Clone_eq [OF assms] scalars_equal_def)
  have p: "RekeyProgress (fst (Clone m)) = NilSlice \<and>
      VerificationProgress (fst (Clone m)) = NilSlice \<and>
      progress (fst (snd (Clone m))) (RekeyProgress (fst (Clone m))) = [] \<and>
      progress (fst (snd (Clone m))) (VerificationProgress (fst (Clone m))) = [] \<and>
      byteSlices (fst (snd (Clone m))) = byteSlices (fst m)"
    by (simp add: Clone_eq [OF assms] progress_def)
  have 3: "elems (strings (fst (snd (Clone m)))) (PGPKeys (fst (Clone m))) =
       elems (strings (fst m)) (PGPKeys (snd m))"
    using length_elems [OF k] by (simp add: Clone_eq [OF assms] elems_len_0)
  have 4: "elems (bytes (fst (snd (Clone m)))) (VerificationKey (fst (Clone m))) =
       elems (bytes (fst m)) (VerificationKey (snd m))"
    using length_elems [OF v] by (simp add: Clone_eq [OF assms] elems_len_0)
  have 5: "valid_slice (strings (fst m)) sl \<Longrightarrow>
        elems (strings (fst (snd (Clone m)))) sl = elems (strings (fst m)) sl" for sl
    by (simp add: Clone_eq [OF assms] elems_old)
  have 6: "valid_slice (bytes (fst m)) sl \<Longrightarrow>
        elems (bytes (fst (snd (Clone m)))) sl = elems (bytes (fst m)) sl" for sl
    by (simp add: Clone_eq [OF assms] elems_old)
  have 7: "valid_slice (strings (fst m)) sl \<Longrightarrow>
        assign (strings (fst (snd (Clone m)))) (PGPKeys (fst (Clone m))) k v = Some st \<Longrightarrow>
        elems st sl = elems (strings (fst m)) sl" for sl k v st
    by (cases "len (PGPKeys (snd m)) > 0")
       (auto simp: Clone_eq [OF assms] assign_NilSlice simp del: assign.simps
          dest: assign_new_array)
  have 8: "valid_slice (bytes (fst m)) sl \<Longrightarrow>
        assign (bytes (fst (snd (Clone m)))) (VerificationKey (fst (Clone m))) k v = Some st \<Longrightarrow>
        elems st sl = elems (bytes (fst m)) sl" for sl k v st
    by (cases "len (VerificationKey (snd m)) > 0")
       (auto simp: Clone_eq [OF assms] assign_NilSlice simp del: assign.simps
          dest: assign_new_array)
  have 9: "valid_slice (strings (fst m)) sl \<Longrightarrow>
        assign (strings (fst (snd (Clone m)))) sl k v = Some st \<Longrightarrow>
        elems st (PGPKeys (fst (Clone m))) =
          elems (strings (fst (snd (Clone m)))) (PGPKeys (fst (Clone m)))" for sl k v st
    by (cases "len (PGPKeys (snd m)) > 0")
       (auto simp: Clone_eq [OF assms] simp del: assign.simps elems.simps(2)
          dest: assign_old_array)
  have 10: "valid_slice (bytes (fst m)) sl \<Longrightarrow>
        assign (bytes (fst (snd (Clone m)))) sl k v = Some st \<Longrightarrow>
        elems st (VerificationKey (fst (Clone m))) =
          elems (bytes (fst (snd (Clone m)))) (VerificationKey (fst (Clone m)))" for sl k v st
    by (cases "len (VerificationKey (snd m)) > 0")
       (auto simp: Clone_eq [OF assms] simp del: assign.simps elems.simps(2)
          dest: assign_old_array)
  show ?thesis
    using 1 2 p 3 4 5 6 7 8 9 10 by blast
qed

text \<open>After \<open>c.PGPKeys[0] = "changed"\<close> on the clone of the sample configuration, the clone
  reads the new key and the sample configuration still reads its three keys.\<close>

theorem Clone_independent_copy_witness:
  "valid_memory (sample_heap, sample_config) \<and>
   assign (strings (fst (snd (Clone (sample_heap, sample_config)))))
     (PGPKeys (fst (Clone (sample_heap, sample_config)))) 0 ''changed'' =
     Some [[''k1'', ''k2'', ''k3''], [''k1'', ''k2''],
           [''changed'', ''k2'', ''k3'']] \<and>
   elems [[''k1'', ''k2'', ''k3''], [''k1'', ''k2''],
          [''changed'', ''k2'', ''k3'']] (PGPKeys (fst (Clone (sample_heap, sample_config)))) =
     [''changed'', ''k2'', ''k3''] \<and>
   elems [[''k1'', ''k2'', ''k3''], [''k1'', ''k2''],
          [''changed'', ''k2'', ''k3'']] (PGPKeys sample_config) = [''k1'', ''k2'', ''k3'']"
proof -
  let ?st = "[[''k1'', ''k2'', ''k3''], [''k1'', ''k2''],
              [''changed'', ''k2'', ''k3'']]"
  have k: "valid_slice (strings (fst (sample_heap, sample_config))) (PGPKeys sample_config)"
    by (simp add: sample_heap_def sample_config_def)
  have e: "elems (strings (fst (sample_heap, sample_config))) (PGPKeys sample_config) =
      [''k1'', ''k2'', ''k3'']"
    by (simp add: sample_heap_def sample_config_def)
  have a: "assign (strings (fst (snd (Clone (sample_heap, sample_config)))))
     (PGPKeys (fst (Clone (sample_heap, sample_config)))) 0 ''changed'' = Some ?st"
    by (simp add: Clone_eq [OF sample_valid]) (simp add: sample_heap_def sample_config_def)
  have c: "elems ?st (PGPKeys (fst (Clone (sample_heap, sample_config)))) =
      [''changed'', ''k2'', ''k3'']"
    by (simp add: Clone_eq [OF sample_valid]) (simp add: sample_heap_def sample_config_def)
  have "elems ?st (PGPKeys sample_config) =
      elems (strings (fst (sample_heap, sample_config))) (PGPKeys sample_config)"
    using Clone_independent_copy [OF sample_valid] k a by blast
  then show ?thesis
    using sample_valid a c e by simp
qed

text \<open>The clone of the sample configuration, which holds one submitted share, is not
  deep-equal to it.\<close>

theorem Clone_not_DeepEqual_counterexample:
  "\<not> DeepEqual (fst (snd (Clone (sample_heap, sample_config))))
       (fst (Clone (sample_heap, sample_config))) sample_heap sample_config"
  by (simp add: DeepEqual_def Clone_eq [OF sample_valid] progress_def)
     (simp add: sample_heap_def sample_config_def)

subsection \<open>SealConfigType\<close>

text \<open>
  Claim C4, as amended: the seal type is a string under a type name, so values other
  than the declared constants exist. The eight constants \<open>Multiseal\<close>, \<open>Shamir\<close>,
  \<open>Pkcs11\<close>, \<open>AwsKms\<close>, \<open>HsmAutoDeprecated\<close>, \<open>Transit\<close>, \<open>GcpCkms\<close> and
  \<open>RecoveryUnsupported\<close> are pairwise distinct when the library's wrapper tags are
  pairwise distinct and differ from \<open>multiseal\<close> and \<open>unsupported\<close>. \<open>Recovery\<close> is an
  alias of \<open>Shamir\<close>: the two are the same value, and \<open>IsSameAs\<close> on \<open>Recovery\<close> answers
  as on \<open>Shamir\<close>, true for the Shamir tag.
\<close>

theorem SealConfigType_constants:
  assumes "distinct [''multiseal'', WrapperTypeShamir W, WrapperTypePkcs11 W,
     WrapperTypeAwsKms W, WrapperTypeHsmAuto W, WrapperTypeTransit W, WrapperTypeGcpCkms W,
     ''unsupported'']"
  shows "distinct [SealConfigTypeMultiseal, SealConfigTypeShamir W, SealConfigTypePkcs11 W,
       SealConfigTypeAwsKms W, SealConfigTypeHsmAutoDeprecated W, SealConfigTypeTransit W,
       SealConfigTypeGcpCkms W, SealConfigTypeRecoveryUnsupported] \<and>
     SealConfigTypeRecovery W = SealConfigTypeShamir W \<and>
     IsSameAs (SealConfigTypeRecovery W) (String (SealConfigTypeShamir W)) \<and>
     (\<forall>t. IsSameAs (SealConfigTypeRecovery W) t = IsSameAs (SealConfigTypeShamir W) t) \<and>
     (\<exists>t. t \<notin> set [SealConfigTypeMultiseal, SealConfigTypeShamir W, SealConfigTypePkcs11 W,
       SealConfigTypeAwsKms W, SealConfigTypeHsmAutoDeprecated W, SealConfigTypeTransit W,
       SealConfigTypeGcpCkms W, SealConfigTypeRecovery W, SealConfigTypeRecoveryUnsupported])"
proof -
  have "distinct [SealConfigTypeMultiseal, SealConfigTypeShamir W, SealConfigTypePkcs11 W,
       SealConfigTypeAwsKms W, SealConfigTypeHsmAutoDeprecated W, SealConfigTypeTransit W,
       SealConfigTypeGcpCkms W, SealConfigTypeRecoveryUnsupported] \<and>
     SealConfigTypeRecovery W = SealConfigTypeShamir W \<and>
     IsSameAs (SealConfigTypeRecovery W) (String (SealConfigTypeShamir W)) \<and>
     (\<forall>t. IsSameAs (SealConfigTypeRecovery W) t = IsSameAs (SealConfigTypeShamir W) t)"
    using assms
    by (simp add: SealConfigTypeMultiseal_def SealConfigTypeShamir_def
        SealConfigTypePkcs11_def SealConfigTypeAwsKms_def SealConfigTypeHsmAutoDeprecated_def
        SealConfigTypeTransit_def SealConfigTypeGcpCkms_def
        SealConfigTypeRecoveryUnsupported_def SealConfigTypeRecovery_def IsSameAs_def)
  then show ?thesis
    using SealConfigType_not_closed by blast
qed

theorem SealConfigType_constants_witness:
  "distinct [''multiseal'', WrapperTypeShamir go_kms_wrapping, WrapperTypePkcs11 go_kms_wrapping,
     WrapperTypeAwsKms go_kms_wrapping, WrapperTypeHsmAuto go_kms_wrapping,
     WrapperTypeTransit go_kms_wrapping, WrapperTypeGcpCkms go_kms_wrapping, ''unsupported''] \<and>
   distinct [SealConfigTypeMultiseal, SealConfigTypeShamir go_kms_wrapping,
     SealConfigTypePkcs11 go_kms_wrapping, SealConfigTypeAwsKms go_kms_wrapping,
     SealConfigTypeHsmAutoDeprecated go_kms_wrapping, SealConfigTypeTransit go_kms_wrapping,
     SealConfigTypeGcpCkms go_kms_wrapping, SealConfigTypeRecoveryUnsupported] \<and>
   IsSameAs (SealConfigTypeRecovery go_kms_wrapping) ''shamir''"
proof -
  have d: "distinct [''multiseal'', WrapperTypeShamir go_kms_wrapping,
     WrapperTypePkcs11 go_kms_wrapping, WrapperTypeAwsKms go_kms_wrapping,
     WrapperTypeHsmAuto go_kms_wrapping, WrapperTypeTransit go_kms_wrapping,
     WrapperTypeGcpCkms go_kms_wrapping, ''unsupported'']"
    by (simp add: go_kms_wrapping_def)
  have s: "String (SealConfigTypeShamir go_kms_wrapping) = ''shamir''"
    by (simp add: SealConfigTypeShamir_def go_kms_wrapping_def)
  show ?thesis
    using SealConfigType_constants [OF d] d s by (simp add: IsSameAs_def)
qed

text \<open>With the library's tags, \<open>Recovery\<close> and \<open>Shamir\<close> are one value, \<open>IsSameAs\<close> on
  \<open>Recovery\<close> and the Shamir tag is true, and \<open>SealConfigType("other")\<close> is a seal type
  that is none of the constants.\<close>

theorem SealConfigTypeRecovery_counterexample:
  "SealConfigTypeRecovery go_kms_wrapping = SealConfigTypeShamir go_kms_wrapping \<and>
   String (SealConfigTypeShamir go_kms_wrapping) = ''shamir'' \<and>
   IsSameAs (SealConfigTypeRecovery go_kms_wrapping) ''shamir'' \<and>
   SealConfigType ''other'' \<notin> set [SealConfigTypeMultiseal,
     SealConfigTypeShamir go_kms_wrapping, SealConfigTypePkcs11 go_kms_wrapping,
     SealConfigTypeAwsKms go_kms_wrapping, SealConfigTypeHsmAutoDeprecated go_kms_wrapping,
     SealConfigTypeTransit go_kms_wrapping, SealConfigTypeGcpCkms go_kms_wrapping,
     SealConfigTypeRecovery go_kms_wrapping, SealConfigTypeRecoveryUnsupported]"
  by (simp add: SealConfigTypeMultiseal_def SealConfigTypeShamir_def SealConfigTypePkcs11_def
      SealConfigTypeAwsKms_def SealConfigTypeHsmAutoDeprecated_def SealConfigTypeTransit_def
      SealConfigTypeGcpCkms_def SealConfigTypeRecoveryUnsupported_def
      SealConfigTypeRecovery_def IsSameAs_def go_kms_wrapping_def)

subsection \<open>RootCredential\<close>

text \<open>
  Claim C9: \<open>RootCredential.Validate\<close> returns nil for every receiver, the zero value
  included: it validates no field.
\<close>

theorem RootCredential_Validate_nil: "RootCredential_Validate s = None"
  by (simp add: RootCredential_Validate_def)

text \<open>
  Claim C10, as amended: \<open>GetRootCredential\<close> returns an error if and only if
  \<open>rotationSchedule\<close> is a non-empty string that the schedule parser rejects. On success
  the credential's schedule records the given \<open>rotationSchedule\<close>; its \<open>RotationWindow\<close>
  and \<open>TTL\<close> are the given integers times \<open>time.Second\<close> in 64-bit arithmetic, which is
  that number of seconds whenever the integer lies between -9223372036 and 9223372036;
  \<open>NextVaultRotation\<close> and \<open>LastVaultRotation\<close> are the zero time; the embedded cron
  schedule is nil exactly when \<open>rotationSchedule\<close> is empty; \<open>Path\<close> and \<open>Name\<close> are the
  given arguments.
\<close>

theorem GetRootCredential_result:
  "((\<exists>err. GetRootCredential Parse rs p n rw ttl = Inl err) \<longleftrightarrow>
      (rs \<noteq> [] \<and> (\<exists>err. Parse rs = Inl err))) \<and>
   (\<forall>c. GetRootCredential Parse rs p n rw ttl = Inr c \<longrightarrow>
      (\<exists>sch. RotationOptions.Schedule c = Some sch \<and>
         RotationSchedule sch = rs \<and>
         RotationWindow sch = rw * Second \<and> TTL sch = ttl * Second \<and>
         (seconds_in_range rw \<longrightarrow> sint (RotationWindow sch) = sint rw * 1000000000) \<and>
         (seconds_in_range ttl \<longrightarrow> sint (TTL sch) = sint ttl * 1000000000) \<and>
         NextVaultRotation sch = Time_zero \<and> LastVaultRotation sch = Time_zero \<and>
         (RootSchedule.Schedule sch = None \<longleftrightarrow> rs = [])) \<and>
      Path c = p \<and> RootCredential.Name c = n)"
proof (cases "rs = []")
  case True
  then show ?thesis
    by (auto simp: GetRootCredential_def seconds_in_range_def sint_seconds)
next
  case False
  then show ?thesis
    by (cases "Parse rs") (auto simp: GetRootCredential_def seconds_in_range_def sint_seconds)
qed

text \<open>A schedule that parses, a window of an hour and a lifetime of a minute.\<close>

theorem GetRootCredential_result_witness:
  "GetRootCredential sample_Parse ''0 0 * * SAT'' ''p'' ''n'' 3600 60 =
     Inr \<lparr>RotationOptions.Schedule = Some \<lparr>RootSchedule.Schedule = Some 11,
             RotationSchedule = ''0 0 * * SAT'', RotationWindow = 3600000000000,
             TTL = 60000000000, NextVaultRotation = Time_zero,
             LastVaultRotation = Time_zero\<rparr>,
           RotationID = [], Path = ''p'', RootCredential.Name = ''n''\<rparr> \<and>
   seconds_in_range 3600 \<and>
   sint (3600000000000 :: 64 word) = sint (3600 :: 64 word) * 1000000000"
  using GetRootCredential_result [of sample_Parse "''0 0 * * SAT''" "''p''" "''n''" 3600 60]
  by (simp add: GetRootCredential_def sample_Parse_def Second_def seconds_in_range_def)

text \<open>A window of 9223372037 seconds: the stored \<open>RotationWindow\<close> is a negative count of
  nanoseconds.\<close>

theorem GetRootCredential_seconds_counterexample:
  "GetRootCredential sample_Parse [] ''p'' ''n'' 9223372037 0 =
     Inr \<lparr>RotationOptions.Schedule = Some \<lparr>RootSchedule.Schedule = None,
             RotationSchedule = [], RotationWindow = 9223372037000000000,
             TTL = 0, NextVaultRotation = Time_zero,
             LastVaultRotation = Time_zero\<rparr>,
           RotationID = [], Path = ''p'', RootCredential.Name = ''n''\<rparr> \<and>
   sint (9223372037 :: 64 word) = 9223372037 \<and>
   sint (9223372037000000000 :: 64 word) = - 9223372036709551616"
  by (simp add: GetRootCredential_def Second_def)

end
